theory Spec2Isabelle
  imports Complex_Main
begin

section \<open>The cronbeats ping client\<close>

text \<open>
  A shallow embedding of \<^verbatim>\<open>cronbeats_python/client.py\<close>, \<^verbatim>\<open>errors.py\<close> and the
  transport contract of \<^verbatim>\<open>http.py\<close>. Python integers are \<open>int\<close>, a Python str is
  the \<open>string\<close> of the bytes of its UTF-8 encoding, dictionaries with string keys are association lists read with
  \<open>map_of\<close>, exceptions are values of a sum type. Everything the client reaches
  outside its own code (the transport, the random source, \<^verbatim>\<open>time.sleep\<close>, the JSON
  codec, \<^verbatim>\<open>float\<close>) is a field of an environment record.
\<close>

subsection \<open>Values\<close>

text \<open>
  What \<^verbatim>\<open>json.loads\<close> can return. The type \<open>'f\<close> stands for Python's \<^verbatim>\<open>float\<close>;
  the client never computes with floats, it only passes them on.
\<close>

datatype 'f json =
    JNull
  | JBool bool
  | JInt int
  | JFloat 'f
  | JStr string
  | JArr "'f json list"
  | JObj "(string \<times> 'f json) list"

type_synonym 'f pydict = "(string \<times> 'f json) list"

text \<open>\<^verbatim>\<open>d.get(key, default)\<close>\<close>

definition dict_get :: "(string \<times> 'v) list \<Rightarrow> string \<Rightarrow> 'v \<Rightarrow> 'v" where
  "dict_get d k dflt = (case map_of d k of None \<Rightarrow> dflt | Some v \<Rightarrow> v)"

text \<open>\<^verbatim>\<open>str(i)\<close> of a Python int: decimal digits, with a minus sign below zero.\<close>

fun dec_digits :: "nat \<Rightarrow> string" where
  "dec_digits n =
     (if n < 10 then [''0123456789'' ! n]
      else dec_digits (n div 10) @ [''0123456789'' ! (n mod 10)])"

declare dec_digits.simps [simp del]

definition str_int :: "int \<Rightarrow> string" where
  "str_int i = (if i < 0 then CHR ''-'' # dec_digits (nat (- i)) else dec_digits (nat i))"

text \<open>
  \<^verbatim>\<open>len(s)\<close> and \<^verbatim>\<open>s[:n]\<close> of a Python str count characters (code points), not
  bytes. In UTF-8 every character starts with one byte outside \<open>128..191\<close> and goes
  on with bytes inside (continuation bytes), so the characters are counted by their
  first bytes, and a slice keeps the continuation bytes of the characters it keeps.
\<close>

definition is_continuation :: "char \<Rightarrow> bool" where
  "is_continuation ch \<longleftrightarrow> 128 \<le> (of_char ch :: nat) \<and> (of_char ch :: nat) < 192"

definition py_len :: "string \<Rightarrow> nat" where
  "py_len s = length (filter (\<lambda>ch. \<not> is_continuation ch) s)"

fun py_take :: "nat \<Rightarrow> string \<Rightarrow> string" where
  "py_take n [] = []"
| "py_take n (ch # s) =
     (if is_continuation ch then ch # py_take n s
      else (case n of 0 \<Rightarrow> [] | Suc m \<Rightarrow> ch # py_take m s))"

subsection \<open>Errors (\<^verbatim>\<open>errors.py\<close>)\<close>

text \<open>
  Built-in exceptions that the client does not catch everywhere: they leave a call as
  they are.
\<close>

datatype py_exception = TypeError | ValueError | OverflowError | RecursionError

text \<open>
  \<^verbatim>\<open>ApiError.raw\<close> holds the caught transport exception (its text) for a network error
  and the decoded payload otherwise.
\<close>

datatype 'f raw_value = RawExc string | RawPayload "'f pydict"

record 'f api_error =
  code :: string
  message :: string
  http_status :: "int option"
  retryable :: bool
  raw :: "'f raw_value"

datatype 'f error =
    ValidationError string
  | SdkError string
  | ApiError "'f api_error"
  | Uncaught py_exception

subsection \<open>Transport (\<^verbatim>\<open>http.py\<close>)\<close>

record http_response =
  status :: int
  body :: string
  headers :: "(string \<times> string) list"

text \<open>The arguments of \<^verbatim>\<open>HttpClient.request\<close>.\<close>

record http_request =
  req_method :: string
  req_url :: string
  req_headers :: "(string \<times> string) list"
  req_body :: "string option"
  req_timeout_ms :: int

text \<open>
  One call of \<^verbatim>\<open>http_client.request\<close> returns a response (of any status) or raises
  \<^verbatim>\<open>SdkError\<close>; \<open>Raises\<close> carries \<^verbatim>\<open>str(exc)\<close>.
\<close>

datatype transport_outcome = Returns http_response | Raises string

subsection \<open>Environment\<close>

text \<open>
  \<^item> \<open>http_client k req\<close>: the outcome of the transport's invocation number \<open>k\<close>
    (counted from 0 within one call of the pipeline) on the request \<open>req\<close>;
  \<^item> \<open>random_draw n\<close>: the raw value the random source yields at the \<open>n\<close>-th retry;
  \<^item> \<open>time_sleep ms\<close>: \<^verbatim>\<open>time.sleep(ms / 1000.0)\<close>, \<open>None\<close> when it returns and the
    exception when it raises (CPython raises \<^verbatim>\<open>ValueError\<close> for a negative length and
    \<^verbatim>\<open>OverflowError\<close> for a length beyond the range of a float or of the clock);
  \<^item> \<open>json_loads\<close>: \<^verbatim>\<open>json.loads\<close>, which returns the decoded value, raises
    \<^verbatim>\<open>JSONDecodeError\<close> for a text that is not JSON, or raises another exception
    (CPython raises a plain \<^verbatim>\<open>ValueError\<close> for an integer literal beyond the digit
    limit and \<^verbatim>\<open>RecursionError\<close> for nesting beyond the recursion limit);
  \<^item> \<open>json_dumps\<close>: \<^verbatim>\<open>json.dumps(payload, separators=(",", ":"))\<close>, \<open>None\<close> when it raises;
  \<^item> \<open>py_repr\<close>: \<^verbatim>\<open>str\<close> of a float, a list or a dict;
  \<^item> \<open>float_of_int\<close>: \<^verbatim>\<open>float\<close> of an int, \<open>None\<close> for \<^verbatim>\<open>OverflowError\<close>;
  \<^item> \<open>float_of_str\<close>: \<^verbatim>\<open>float\<close> of a str, \<open>None\<close> for \<^verbatim>\<open>ValueError\<close>;
  \<^item> \<open>float_zero\<close>: the float \<^verbatim>\<open>0.0\<close>.

  \<^verbatim>\<open>random.randint(lo, hi)\<close> draws one of the \<open>hi - lo + 1\<close> values with equal
  probability; the environment supplies the rank of the value drawn, \<open>random_draw\<close>,
  which \<open>randint\<close> below reduces modulo the number of values.
\<close>

datatype 'f loads_result = Decoded "'f json" | JSONDecodeError | LoadsRaises py_exception

record 'f env =
  http_client :: "nat \<Rightarrow> http_request \<Rightarrow> transport_outcome"
  random_draw :: "int \<Rightarrow> nat"
  time_sleep :: "int \<Rightarrow> py_exception option"
  json_loads :: "string \<Rightarrow> 'f loads_result"
  json_dumps :: "'f pydict \<Rightarrow> string option"
  py_repr :: "'f json \<Rightarrow> string"
  float_of_int :: "int \<Rightarrow> 'f option"
  float_of_str :: "string \<Rightarrow> 'f option"
  float_zero :: 'f

text \<open>\<^verbatim>\<open>str(v)\<close> of a decoded value.\<close>

fun py_str :: "'f env \<Rightarrow> 'f json \<Rightarrow> string" where
  "py_str env (JStr s) = s"
| "py_str env JNull = ''None''"
| "py_str env (JBool b) = (if b then ''True'' else ''False'')"
| "py_str env (JInt i) = str_int i"
| "py_str env (JFloat x) = py_repr env (JFloat x)"
| "py_str env (JArr xs) = py_repr env (JArr xs)"
| "py_str env (JObj d) = py_repr env (JObj d)"

text \<open>
  \<^verbatim>\<open>float(v)\<close> of a decoded value: a float is returned as it is, an int (and a bool,
  which is an int) is converted or overflows, a str is parsed, anything else is
  a \<^verbatim>\<open>TypeError\<close>.
\<close>

fun py_float :: "'f env \<Rightarrow> 'f json \<Rightarrow> py_exception + 'f" where
  "py_float env (JFloat x) = Inr x"
| "py_float env (JInt i) =
     (case float_of_int env i of None \<Rightarrow> Inl OverflowError | Some x \<Rightarrow> Inr x)"
| "py_float env (JBool b) =
     (case float_of_int env (if b then 1 else 0) of None \<Rightarrow> Inl OverflowError | Some x \<Rightarrow> Inr x)"
| "py_float env (JStr s) =
     (case float_of_str env s of None \<Rightarrow> Inl ValueError | Some x \<Rightarrow> Inr x)"
| "py_float env JNull = Inl TypeError"
| "py_float env (JArr xs) = Inl TypeError"
| "py_float env (JObj d) = Inl TypeError"

text \<open>\<^verbatim>\<open>random.randint(lo, hi)\<close>: an int between \<open>lo\<close> and \<open>hi\<close>, both included.\<close>

definition randint :: "'f env \<Rightarrow> int \<Rightarrow> int \<Rightarrow> int \<Rightarrow> py_exception + int" where
  "randint env n lo hi =
     (if hi < lo then Inl ValueError
      else Inr (lo + int (random_draw env n mod nat (hi - lo + 1))))"

subsection \<open>The client (\<^verbatim>\<open>client.py\<close>)\<close>

record config =
  job_key :: string
  base_url :: string
  timeout_ms :: int
  max_retries :: int
  retry_backoff_ms :: int
  retry_jitter_ms :: int
  user_agent :: string

text \<open>\<^verbatim>\<open>PingClient._map_error\<close>: the pair is (code, retryable).\<close>

definition map_error :: "int \<Rightarrow> string \<times> bool" where
  "map_error st =
     (if st = 400 then (''VALIDATION_ERROR'', False)
      else if st = 404 then (''NOT_FOUND'', False)
      else if st = 429 then (''RATE_LIMITED'', True)
      else if st \<ge> 500 then (''SERVER_ERROR'', True)
      else (''UNKNOWN_ERROR'', False))"

text \<open>
  \<^verbatim>\<open>PingClient._safe_json\<close>. The \<^verbatim>\<open>except\<close> clause names \<^verbatim>\<open>json.JSONDecodeError\<close>
  only: any other exception of \<^verbatim>\<open>json.loads\<close> leaves the function (\<open>Inl\<close>).
\<close>

definition safe_json :: "'f env \<Rightarrow> string \<Rightarrow> py_exception + 'f pydict" where
  "safe_json env raw_text =
     (case json_loads env raw_text of
        Decoded decoded \<Rightarrow>
          (case decoded of
             JObj d \<Rightarrow> Inr d
           | _ \<Rightarrow> Inr [(''message'', JStr ''Invalid JSON response'')])
      | JSONDecodeError \<Rightarrow> Inr [(''message'', JStr ''Invalid JSON response'')]
      | LoadsRaises e \<Rightarrow> Inl e)"

text \<open>
  \<^verbatim>\<open>PingClient._normalize_success\<close>. The result is the dict the source builds, key by
  key. The \<^verbatim>\<open>try\<close> around \<^verbatim>\<open>float(processing)\<close> catches \<^verbatim>\<open>TypeError\<close> and
  \<^verbatim>\<open>ValueError\<close>; any other exception leaves the function.
\<close>

definition normalize_success ::
  "config \<Rightarrow> 'f env \<Rightarrow> string \<Rightarrow> 'f pydict \<Rightarrow> py_exception + 'f pydict" where
  "normalize_success c env act payload =
     (let processing = dict_get payload ''processing_time_ms'' (JFloat (float_zero env));
          caught = (case py_float env processing of
                      Inr x \<Rightarrow> Inr x
                    | Inl TypeError \<Rightarrow> Inr (float_zero env)
                    | Inl ValueError \<Rightarrow> Inr (float_zero env)
                    | Inl e \<Rightarrow> Inl e)
      in case caught of
           Inl e \<Rightarrow> Inl e
         | Inr processing_ms \<Rightarrow>
             (let next_expected = dict_get payload ''next_expected'' JNull
              in Inr [(''ok'', JBool True),
                      (''action'', JStr (py_str env (dict_get payload ''action'' (JStr act)))),
                      (''jobKey'', JStr (py_str env (dict_get payload ''job_key'' (JStr (job_key c))))),
                      (''timestamp'', JStr (py_str env (dict_get payload ''timestamp'' (JStr [])))),
                      (''processingTimeMs'', JFloat processing_ms),
                      (''nextExpected'',
                         (case next_expected of JNull \<Rightarrow> JNull | v \<Rightarrow> JStr (py_str env v))),
                      (''raw'', JObj payload)]))"

text \<open>
  \<^verbatim>\<open>PingClient._sleep_with_backoff\<close>. The length is computed in milliseconds, in
  Python's unbounded ints; \<open>Inr\<close> returns the length slept.
\<close>

definition sleep_with_backoff :: "config \<Rightarrow> 'f env \<Rightarrow> int \<Rightarrow> py_exception + int" where
  "sleep_with_backoff c env attempt =
     (let base_ms = retry_backoff_ms c * 2 ^ nat (max 0 (attempt - 1))
      in case randint env attempt 0 (max 0 (retry_jitter_ms c)) of
           Inl e \<Rightarrow> Inl e
         | Inr jitter_ms \<Rightarrow>
             (case time_sleep env (base_ms + jitter_ms) of
                Some e \<Rightarrow> Inl e
              | None \<Rightarrow> Inr (base_ms + jitter_ms)))"

text \<open>
  The \<^verbatim>\<open>while True\<close> loop of \<^verbatim>\<open>PingClient._request\<close>. Besides \<open>attempt\<close> the model
  carries what an observer of the call sees: \<open>calls\<close>, the number of transport
  invocations made so far, and \<open>slept\<close>, the lengths of the sleeps so far. The result
  is the value returned (\<open>Inr\<close>) or the exception raised (\<open>Inl\<close>), with the final
  \<open>calls\<close> and \<open>slept\<close>. A loop that never ends is \<open>None\<close>.
\<close>

partial_function (option) request_loop ::
  "config \<Rightarrow> 'f env \<Rightarrow> string \<Rightarrow> http_request \<Rightarrow> int \<Rightarrow> nat \<Rightarrow> int list
     \<Rightarrow> (('f error + 'f pydict) \<times> nat \<times> int list) option" where
  "request_loop c env act req attempt calls slept =
     (case http_client env calls req of
        Raises exc \<Rightarrow>
          if attempt \<ge> max_retries c then
            Some (Inl (ApiError \<lparr>code = ''NETWORK_ERROR'', message = exc, http_status = None,
                                 retryable = True, raw = RawExc exc\<rparr>),
                  calls + 1, slept)
          else
            (case sleep_with_backoff c env (attempt + 1) of
               Inl e \<Rightarrow> Some (Inl (Uncaught e), calls + 1, slept)
             | Inr ms \<Rightarrow> request_loop c env act req (attempt + 1) (calls + 1) (slept @ [ms]))
      | Returns response \<Rightarrow>
          (case safe_json env (body response) of
             Inl e \<Rightarrow> Some (Inl (Uncaught e), calls + 1, slept)
           | Inr decoded \<Rightarrow>
               if 200 \<le> status response \<and> status response < 300 then
                 (case normalize_success c env act decoded of
                    Inl e \<Rightarrow> Some (Inl (Uncaught e), calls + 1, slept)
                  | Inr result \<Rightarrow> Some (Inr result, calls + 1, slept))
               else if snd (map_error (status response)) \<and> attempt < max_retries c then
                 (case sleep_with_backoff c env (attempt + 1) of
                    Inl e \<Rightarrow> Some (Inl (Uncaught e), calls + 1, slept)
                  | Inr ms \<Rightarrow>
                      request_loop c env act req (attempt + 1) (calls + 1) (slept @ [ms]))
               else
                 Some (Inl (ApiError
                         \<lparr>code = fst (map_error (status response)),
                          message = py_str env (dict_get decoded ''message''
                                      (JStr ''Request failed'')),
                          http_status = Some (status response),
                          retryable = snd (map_error (status response)),
                          raw = RawPayload decoded\<rparr>),
                       calls + 1, slept)))"

declare request_loop.simps [code]

text \<open>
  \<^verbatim>\<open>PingClient._request\<close>: the payload is encoded once, then the loop starts with
  \<open>attempt = 0\<close>. An encoding failure is an \<^verbatim>\<open>SdkError\<close> before any invocation.
\<close>

definition request ::
  "config \<Rightarrow> 'f env \<Rightarrow> string \<Rightarrow> string \<Rightarrow> 'f pydict option
     \<Rightarrow> (('f error + 'f pydict) \<times> nat \<times> int list) option" where
  "request c env act path body_arg =
     (let payload = (case body_arg of None \<Rightarrow> [] | Some b \<Rightarrow> b);
          url = base_url c @ path
      in case (if length payload = 0 then Inr None
               else (case json_dumps env payload of
                       None \<Rightarrow> Inl (SdkError ''Failed to encode request payload.'')
                     | Some text \<Rightarrow> Inr (Some text))) of
           Inl e \<Rightarrow> Some (Inl e, 0, [])
         | Inr encoded_body \<Rightarrow>
             request_loop c env act
               \<lparr>req_method = ''POST'', req_url = url,
                req_headers = [(''Content-Type'', ''application/json''),
                               (''Accept'', ''application/json''),
                               (''User-Agent'', user_agent c)],
                req_body = encoded_body, req_timeout_ms = timeout_ms c\<rparr>
               0 0 [])"

definition ping :: "config \<Rightarrow> 'f env \<Rightarrow> (('f error + 'f pydict) \<times> nat \<times> int list) option" where
  "ping c env = request c env ''ping'' (''/ping/'' @ job_key c) None"

definition start :: "config \<Rightarrow> 'f env \<Rightarrow> (('f error + 'f pydict) \<times> nat \<times> int list) option" where
  "start c env = request c env ''start'' (''/ping/'' @ job_key c @ ''/start'') None"

text \<open>
  \<^verbatim>\<open>PingClient.progress\<close>. The first argument is a bare int, a dict that may hold an
  int under \<^verbatim>\<open>seq\<close> and a str under \<^verbatim>\<open>message\<close>, or nothing. \<open>progress_request\<close>
  is the part of the method before it calls \<^verbatim>\<open>_request\<close>: it raises or gives the
  action, the path and the body handed over. The limit of 255 is on characters:
  \<^verbatim>\<open>len(safe_msg)\<close> is \<open>py_len\<close> and \<^verbatim>\<open>safe_msg[:255]\<close> is \<open>py_take 255\<close>.
\<close>

datatype progress_input = NoInput | Seq int | Options "int option" "string option"

definition progress_request ::
  "config \<Rightarrow> progress_input \<Rightarrow> string option \<Rightarrow> 'f error + (string \<times> string \<times> 'f pydict)" where
  "progress_request c seq_or_options message_arg =
     (let (seq, msg) =
            (case seq_or_options of
               Seq n \<Rightarrow> (Some n, message_arg)
             | Options seq_raw m \<Rightarrow>
                 (seq_raw,
                  Some (case m of
                          Some t \<Rightarrow> t
                        | None \<Rightarrow> (case message_arg of None \<Rightarrow> [] | Some t \<Rightarrow> t)))
             | NoInput \<Rightarrow> (None, message_arg))
      in if (case seq of Some n \<Rightarrow> n < 0 | None \<Rightarrow> False) then
           Inl (ValidationError ''Progress seq must be a non-negative integer.'')
         else
           (let safe_msg = (case msg of None \<Rightarrow> [] | Some t \<Rightarrow> t);
                safe_msg = (if py_len safe_msg > 255 then py_take 255 safe_msg else safe_msg)
            in case seq of
                 Some n \<Rightarrow>
                   Inr (''progress'',
                        ''/ping/'' @ job_key c @ ''/progress/'' @ str_int n,
                        [(''message'', JStr safe_msg)])
               | None \<Rightarrow>
                   (let body0 = [(''message'', JStr safe_msg)];
                        body1 = (case seq_or_options of
                                   Seq n \<Rightarrow> body0 @ [(''progress'', JInt n)]
                                 | _ \<Rightarrow> body0)
                    in Inr (''progress'', ''/ping/'' @ job_key c @ ''/progress'', body1))))"

definition progress ::
  "config \<Rightarrow> 'f env \<Rightarrow> progress_input \<Rightarrow> string option
     \<Rightarrow> (('f error + 'f pydict) \<times> nat \<times> int list) option" where
  "progress c env seq_or_options message_arg =
     (case progress_request c seq_or_options message_arg of
        Inl e \<Rightarrow> Some (Inl e, 0, [])
      | Inr (act, path, b) \<Rightarrow> request c env act path (Some b))"

text \<open>
  \<^verbatim>\<open>re.fullmatch\<close> for a pattern of the shape \<^verbatim>\<open>[r1r2...]{n}\<close>: a character class given
  by its ranges, repeated exactly \<open>n\<close> times, against the whole string. A string is
  the byte sequence of its UTF-8 encoding, so a character outside ASCII is made of
  bytes from 128 up, which lie in none of the ranges used here.
\<close>

definition in_ranges :: "(char \<times> char) list \<Rightarrow> char \<Rightarrow> bool" where
  "in_ranges rs ch =
     list_ex (\<lambda>(lo, hi). (of_char lo :: nat) \<le> of_char ch \<and> (of_char ch :: nat) \<le> of_char hi) rs"

fun fullmatch_repeat :: "(char \<times> char) list \<Rightarrow> nat \<Rightarrow> string \<Rightarrow> bool" where
  "fullmatch_repeat rs 0 s = (s = [])"
| "fullmatch_repeat rs (Suc n) [] = False"
| "fullmatch_repeat rs (Suc n) (ch # s) = (in_ranges rs ch \<and> fullmatch_repeat rs n s)"

text \<open>\<^verbatim>\<open>PingClient._assert_job_key\<close>, with the pattern \<^verbatim>\<open>[a-zA-Z0-9]{8}\<close>.\<close>

definition assert_job_key :: "string \<Rightarrow> 'f error + unit" where
  "assert_job_key k =
     (if \<not> fullmatch_repeat
             [(CHR ''a'', CHR ''z''), (CHR ''A'', CHR ''Z''), (CHR ''0'', CHR ''9'')] 8 k
      then Inl (ValidationError ''jobKey must be exactly 8 Base62 characters.'')
      else Inr ())"

text \<open>\<^verbatim>\<open>s.rstrip(ch)\<close> for a single character.\<close>

definition rstrip :: "char \<Rightarrow> string \<Rightarrow> string" where
  "rstrip ch s = rev (dropWhile (\<lambda>x. x = ch) (rev s))"

text \<open>
  \<^verbatim>\<open>PingClient.__init__\<close>. The options hold values of their documented types; a
  missing key is \<open>None\<close>, and no options at all is every key missing. The transport is no argument: it is part of the environment
  of a later call, and the constructor has no way to invoke it.
\<close>

record options =
  opt_base_url :: "string option"
  opt_timeout_ms :: "int option"
  opt_max_retries :: "int option"
  opt_retry_backoff_ms :: "int option"
  opt_retry_jitter_ms :: "int option"
  opt_user_agent :: "string option"

definition PingClient :: "string \<Rightarrow> options \<Rightarrow> 'f error + config" where
  "PingClient k opts =
     (case assert_job_key k of
        Inl e \<Rightarrow> Inl e
      | Inr _ \<Rightarrow>
          Inr \<lparr>job_key = k,
               base_url = rstrip CHR ''/''
                 (case opt_base_url opts of None \<Rightarrow> ''https://cronbeats.io'' | Some u \<Rightarrow> u),
               timeout_ms = (case opt_timeout_ms opts of None \<Rightarrow> 5000 | Some v \<Rightarrow> v),
               max_retries = (case opt_max_retries opts of None \<Rightarrow> 2 | Some v \<Rightarrow> v),
               retry_backoff_ms = (case opt_retry_backoff_ms opts of None \<Rightarrow> 250 | Some v \<Rightarrow> v),
               retry_jitter_ms = (case opt_retry_jitter_ms opts of None \<Rightarrow> 100 | Some v \<Rightarrow> v),
               user_agent = (case opt_user_agent opts of
                               None \<Rightarrow> ''cronbeats-python-sdk/0.1.0'' | Some a \<Rightarrow> a)\<rparr>)"

subsection \<open>A scripted environment\<close>

text \<open>
  The substitute transport of the test suite (\<^verbatim>\<open>StubHttpClient\<close>) plays a list of
  outcomes in order and answers 200 with the body \<^verbatim>\<open>{}\<close> once the list is used up.
  \<open>always_failing\<close> is a transport without connectivity, \<open>echo_transport\<close> answers
  200 with the request body it was sent as the response body. \<open>stub_env\<close> puts a
  transport into an environment for evaluating calls, with CPython's behaviour where
  the calls below depend on it:
  \<^item> floats are rationals, and \<^verbatim>\<open>float\<close> of an int rounds to 53 significant bits, to
    even on a tie, and raises \<^verbatim>\<open>OverflowError\<close> when the rounded value reaches
    \<open>2 ^ 1024\<close>;
  \<^item> \<^verbatim>\<open>time.sleep\<close> raises \<^verbatim>\<open>ValueError\<close> for a negative length and
    \<^verbatim>\<open>OverflowError\<close> for a length of \<open>2 ^ 63\<close> nanoseconds or more;
  \<^item> \<^verbatim>\<open>json.loads\<close> raises \<^verbatim>\<open>ValueError\<close> for the integer literal of 4301 digits
    \<^verbatim>\<open>1\<close> and \<^verbatim>\<open>RecursionError\<close> for 1100 opening brackets; otherwise it is tabulated
    on the texts used below, like \<^verbatim>\<open>json.dumps\<close> and \<^verbatim>\<open>float\<close> of a str, and every
    text that is not in the table counts as not being JSON.
\<close>

definition scripted :: "transport_outcome list \<Rightarrow> nat \<Rightarrow> http_request \<Rightarrow> transport_outcome" where
  "scripted outcomes k req =
     (if k < length outcomes then outcomes ! k
      else Returns \<lparr>status = 200, body = ''{}'', headers = []\<rparr>)"

definition stub_loads :: "string \<Rightarrow> rat loads_result" where
  \<open>stub_loads text =
     (if length text = 4301 \<and> list_all (\<lambda>ch. ch = CHR ''1'') text then LoadsRaises ValueError
      else if length text = 1100 \<and> list_all (\<lambda>ch. ch = CHR ''['') text then
        LoadsRaises RecursionError
      else if text = ''{}'' then Decoded (JObj [])
      else if text = ''{"processing_time_ms":8.25,"job_key":"abc123de"}'' then
        Decoded (JObj [(''processing_time_ms'', JFloat (33 / 4)),
                       (''job_key'', JStr ''abc123de'')])
      else if text = ''{"processing_time_ms":1'' @ replicate 400 CHR ''0'' @ ''}'' then
        Decoded (JObj [(''processing_time_ms'', JInt (10 ^ 400))])
      else if text = ''{"status":"error","message":"Job not found"}'' then
        Decoded (JObj [(''status'', JStr ''error''), (''message'', JStr ''Job not found'')])
      else if text = ''{"status":"error","message":"Invalid request"}'' then
        Decoded (JObj [(''status'', JStr ''error''), (''message'', JStr ''Invalid request'')])
      else if text = ''{"status":"error","message":"Too many requests"}'' then
        Decoded (JObj [(''status'', JStr ''error''), (''message'', JStr ''Too many requests'')])
      else if text = ''{"message":""}'' then Decoded (JObj [(''message'', JStr [])])
      else if text = ''[1,2]'' then Decoded (JArr [JInt 1, JInt 2])
      else JSONDecodeError)\<close>

text \<open>
  The float nearest to an int, as a rational: the int is cut to its 53 leading bits
  and rounded up when the bits cut off are more than half, or exactly half with an
  odd last kept bit.
\<close>

fun bit_length :: "int \<Rightarrow> nat" where
  "bit_length a = (if a \<le> 0 then 0 else Suc (bit_length (a div 2)))"

declare bit_length.simps [simp del]

definition round_to_double :: "int \<Rightarrow> rat" where
  "round_to_double i =
     (let a = \<bar>i\<bar>;
          shift = bit_length a - 53;
          q = a div 2 ^ shift;
          r = a mod 2 ^ shift;
          q' = (if 2 * r > 2 ^ shift \<or> (2 * r = 2 ^ shift \<and> odd q) then q + 1 else q)
      in of_int (sgn i * (q' * 2 ^ shift)))"

definition stub_float_of_int :: "int \<Rightarrow> rat option" where
  "stub_float_of_int i =
     (if \<bar>i\<bar> \<ge> 2 ^ 1024 - 2 ^ 970 then None else Some (round_to_double i))"

definition stub_dumps :: "rat pydict \<Rightarrow> string option" where
  \<open>stub_dumps d =
     (if d = [(''message'', JStr [])] then Some ''{"message":""}'' else None)\<close>

definition always_failing :: "nat \<Rightarrow> http_request \<Rightarrow> transport_outcome" where
  "always_failing k req = Raises ''socket timeout''"

definition echo_transport :: "nat \<Rightarrow> http_request \<Rightarrow> transport_outcome" where
  "echo_transport k req =
     Returns \<lparr>status = 200,
              body = (case req_body req of None \<Rightarrow> ''{}'' | Some text \<Rightarrow> text),
              headers = []\<rparr>"

definition stub_env :: "(nat \<Rightarrow> http_request \<Rightarrow> transport_outcome) \<Rightarrow> rat env" where
  "stub_env transport =
     \<lparr>http_client = transport,
      random_draw = (\<lambda>n. nat (7 * n + 3)),
      time_sleep = (\<lambda>ms. if ms < 0 then Some ValueError
                         else if 2 ^ 63 \<le> ms * 10 ^ 6 then Some OverflowError
                         else None),
      json_loads = stub_loads,
      json_dumps = stub_dumps,
      py_repr = (\<lambda>v. []),
      float_of_int = stub_float_of_int,
      float_of_str = (\<lambda>s. if s = ''8.25'' then Some (33 / 4) else None),
      float_zero = 0\<rparr>"

text \<open>The client that \<^verbatim>\<open>PingClient("abc123de")\<close> builds, with the default options.\<close>

definition default_client :: config where
  "default_client =
     \<lparr>job_key = ''abc123de'', base_url = ''https://cronbeats.io'', timeout_ms = 5000,
      max_retries = 2, retry_backoff_ms = 250, retry_jitter_ms = 100,
      user_agent = ''cronbeats-python-sdk/0.1.0''\<rparr>"

text \<open>A client with one retry, a negative backoff base and no jitter.\<close>

definition negative_backoff_client :: config where
  "negative_backoff_client =
     default_client\<lparr>max_retries := 1, retry_backoff_ms := - 1, retry_jitter_ms := 0\<rparr>"

text \<open>\<^verbatim>\<open>PingClient(job_key)\<close> without options.\<close>

definition no_options :: options where
  "no_options =
     \<lparr>opt_base_url = None, opt_timeout_ms = None, opt_max_retries = None,
      opt_retry_backoff_ms = None, opt_retry_jitter_ms = None, opt_user_agent = None\<rparr>"

subsection \<open>The specification's wording\<close>

text \<open>
  The job key as the specification words it: exactly 8 characters, each an ASCII
  letter or digit.
\<close>

definition spec_job_key :: "string \<Rightarrow> bool" where
  "spec_job_key k \<longleftrightarrow>
     length k = 8 \<and>
     (\<forall>ch \<in> set k. ch \<in> set (''abcdefghijklmnopqrstuvwxyz'' @ ''ABCDEFGHIJKLMNOPQRSTUVWXYZ''
                               @ ''0123456789''))"

section \<open>Properties\<close>

subsection \<open>Status classification\<close>

text \<open>
  Claim C1. \<open>map_error\<close> is a total function of the status alone, so two calls
  with one status give one pair. On every integer it gives the pair of the table:
  400 is a validation error, 404 is not found, 429 is rate limited and retryable,
  every status from 500 up is a retryable server error, and every other status is an
  unknown error that is not retryable.
\<close>

theorem map_error_table:
  "map_error 400 = (''VALIDATION_ERROR'', False) \<and>
   map_error 404 = (''NOT_FOUND'', False) \<and>
   map_error 429 = (''RATE_LIMITED'', True) \<and>
   (\<forall>st. 500 \<le> st \<longrightarrow> map_error st = (''SERVER_ERROR'', True)) \<and>
   (\<forall>st. st \<noteq> 400 \<and> st \<noteq> 404 \<and> st \<noteq> 429 \<and> st < 500 \<longrightarrow>
      map_error st = (''UNKNOWN_ERROR'', False))"
  by (simp add: map_error_def)

theorem map_error_table_witness:
  "(500::int) \<le> 503 \<and> map_error 503 = (''SERVER_ERROR'', True) \<and>
   (401::int) < 500 \<and> map_error 401 = (''UNKNOWN_ERROR'', False) \<and>
   (302::int) < 500 \<and> map_error 302 = (''UNKNOWN_ERROR'', False)"
  using map_error_table by simp

subsection \<open>One iteration of the retry loop\<close>

lemma loop_raises_final:
  "http_client env calls req = Raises exc \<Longrightarrow> max_retries c \<le> attempt \<Longrightarrow>
   request_loop c env act req attempt calls slept =
     Some (Inl (ApiError \<lparr>code = ''NETWORK_ERROR'', message = exc, http_status = None,
                          retryable = True, raw = RawExc exc\<rparr>), calls + 1, slept)"
  by (subst request_loop.simps) simp

lemma loop_raises_retry:
  "http_client env calls req = Raises exc \<Longrightarrow> attempt < max_retries c \<Longrightarrow>
   request_loop c env act req attempt calls slept =
     (case sleep_with_backoff c env (attempt + 1) of
        Inl e \<Rightarrow> Some (Inl (Uncaught e), calls + 1, slept)
      | Inr ms \<Rightarrow> request_loop c env act req (attempt + 1) (calls + 1) (slept @ [ms]))"
  by (subst request_loop.simps) simp

lemma loop_returns_uncaught:
  "http_client env calls req = Returns r \<Longrightarrow> safe_json env (body r) = Inl e \<Longrightarrow>
   request_loop c env act req attempt calls slept = Some (Inl (Uncaught e), calls + 1, slept)"
  by (subst request_loop.simps) simp

lemma loop_returns_success:
  "http_client env calls req = Returns r \<Longrightarrow> safe_json env (body r) = Inr decoded \<Longrightarrow>
   200 \<le> status r \<Longrightarrow> status r < 300 \<Longrightarrow>
   request_loop c env act req attempt calls slept =
     (case normalize_success c env act decoded of
        Inl e \<Rightarrow> Some (Inl (Uncaught e), calls + 1, slept)
      | Inr result \<Rightarrow> Some (Inr result, calls + 1, slept))"
  by (subst request_loop.simps) simp

lemma loop_returns_retry:
  "http_client env calls req = Returns r \<Longrightarrow> safe_json env (body r) = Inr decoded \<Longrightarrow>
   \<not> (200 \<le> status r \<and> status r < 300) \<Longrightarrow>
   snd (map_error (status r)) \<Longrightarrow> attempt < max_retries c \<Longrightarrow>
   request_loop c env act req attempt calls slept =
     (case sleep_with_backoff c env (attempt + 1) of
        Inl e \<Rightarrow> Some (Inl (Uncaught e), calls + 1, slept)
      | Inr ms \<Rightarrow> request_loop c env act req (attempt + 1) (calls + 1) (slept @ [ms]))"
  by (subst request_loop.simps) auto

lemma loop_returns_final:
  "http_client env calls req = Returns r \<Longrightarrow> safe_json env (body r) = Inr decoded \<Longrightarrow>
   \<not> (200 \<le> status r \<and> status r < 300) \<Longrightarrow>
   \<not> (snd (map_error (status r)) \<and> attempt < max_retries c) \<Longrightarrow>
   request_loop c env act req attempt calls slept =
     Some (Inl (ApiError
              \<lparr>code = fst (map_error (status r)),
               message = py_str env (dict_get decoded ''message'' (JStr ''Request failed'')),
               http_status = Some (status r),
               retryable = snd (map_error (status r)),
               raw = RawPayload decoded\<rparr>), calls + 1, slept)"
  by (subst request_loop.simps) auto

text \<open>One iteration either ends the call after one more invocation or goes on with attempt + 1.\<close>

lemma loop_step:
  "(\<exists>res. request_loop c env act req attempt calls slept = Some (res, calls + 1, slept)) \<or>
   (attempt < max_retries c \<and>
    (\<exists>ms. sleep_with_backoff c env (attempt + 1) = Inr ms \<and>
       request_loop c env act req attempt calls slept =
         request_loop c env act req (attempt + 1) (calls + 1) (slept @ [ms])))"
proof (cases "http_client env calls req")
  case (Raises exc)
  show ?thesis
  proof (cases "attempt < max_retries c")
    case True
    with Raises show ?thesis
      by (cases "sleep_with_backoff c env (attempt + 1)") (simp_all add: loop_raises_retry)
  next
    case False
    with Raises show ?thesis by (simp add: loop_raises_final)
  qed
next
  case (Returns r)
  show ?thesis
  proof (cases "safe_json env (body r)")
    case (Inl e)
    with Returns show ?thesis by (simp add: loop_returns_uncaught)
  next
    case (Inr decoded)
    show ?thesis
    proof (cases "200 \<le> status r \<and> status r < 300")
      case True
      with Returns Inr show ?thesis
        by (cases "normalize_success c env act decoded")
           (simp_all add: loop_returns_success)
    next
      case no2xx: False
      show ?thesis
      proof (cases "snd (map_error (status r)) \<and> attempt < max_retries c")
        case True
        with Returns Inr no2xx show ?thesis
          by (cases "sleep_with_backoff c env (attempt + 1)")
             (simp_all add: loop_returns_retry)
      next
        case False
        with Returns Inr no2xx show ?thesis by (simp add: loop_returns_final)
      qed
    qed
  qed
qed

lemma request_loop_bound:
  "nat (max_retries c - attempt) = n \<Longrightarrow>
   \<exists>res calls' slept'. request_loop c env act req attempt calls slept = Some (res, calls', slept')
      \<and> calls < calls' \<and> calls' \<le> calls + 1 + n"
proof (induction n arbitrary: attempt calls slept)
  case 0
  then have "\<not> attempt < max_retries c" by simp
  with loop_step [of c env act req attempt calls slept] show ?case by auto
next
  case (Suc n)
  from loop_step [of c env act req attempt calls slept] show ?case
  proof
    assume "\<exists>res. request_loop c env act req attempt calls slept = Some (res, calls + 1, slept)"
    then show ?thesis by auto
  next
    assume "attempt < max_retries c \<and>
      (\<exists>ms. sleep_with_backoff c env (attempt + 1) = Inr ms \<and>
         request_loop c env act req attempt calls slept =
           request_loop c env act req (attempt + 1) (calls + 1) (slept @ [ms]))"
    then obtain ms where
      eq: "request_loop c env act req attempt calls slept =
             request_loop c env act req (attempt + 1) (calls + 1) (slept @ [ms])"
      by blast
    from Suc.prems have "nat (max_retries c - (attempt + 1)) = n" by simp
    from Suc.IH [OF this, of "calls + 1" "slept @ [ms]"] eq show ?thesis
      by auto
  qed
qed

subsection \<open>Evaluating calls in the scripted environment\<close>

lemma stub_time_sleep:
  "0 \<le> ms \<Longrightarrow> ms < 9223372036854 \<Longrightarrow> time_sleep (stub_env t) ms = None"
  "ms < 0 \<Longrightarrow> time_sleep (stub_env t) ms = Some ValueError"
  by (simp_all add: stub_env_def)

lemma stub_sleep_negative:
  "sleep_with_backoff negative_backoff_client (stub_env t) 1 = Inl ValueError"
  by (simp add: sleep_with_backoff_def randint_def stub_env_def negative_backoff_client_def
        default_client_def)

lemma stub_sleep_default:
  "sleep_with_backoff default_client (stub_env t) 1 = Inr 260"
  "sleep_with_backoff default_client (stub_env t) 2 = Inr 517"
  by (simp_all add: sleep_with_backoff_def randint_def stub_env_def default_client_def)

lemma stub_sleeps_default:
  "\<forall>n. 0 < n \<and> n \<le> max_retries default_client \<longrightarrow>
     sleep_with_backoff default_client (stub_env t) n = Inr (if n = 1 then 260 else 517)"
proof (intro allI impI)
  fix n :: int
  assume "0 < n \<and> n \<le> max_retries default_client"
  then have "n = 1 \<or> n = 2" by (auto simp: default_client_def)
  then show "sleep_with_backoff default_client (stub_env t) n = Inr (if n = 1 then 260 else 517)"
    by (auto simp: stub_sleep_default)
qed

lemma stub_scripted:
  "http_client (stub_env (scripted (x # xs))) 0 req = x"
  "http_client (stub_env (scripted (x # y # xs))) (Suc 0) req = y"
  "http_client (stub_env (scripted (x # y # z # xs))) 2 req = z"
  by (simp_all add: stub_env_def scripted_def)

lemma list_all_replicate: "list_all P (replicate n x) \<longleftrightarrow> n = 0 \<or> P x"
  by (induction n) auto

lemma stub_decode:
  \<open>safe_json (stub_env t) ''{"processing_time_ms":8.25,"job_key":"abc123de"}'' =
     Inr [(''processing_time_ms'', JFloat (33 / 4)), (''job_key'', JStr ''abc123de'')]\<close>
  \<open>safe_json (stub_env t) (''{"processing_time_ms":1'' @ replicate 400 CHR ''0'' @ ''}'') =
     Inr [(''processing_time_ms'', JInt (10 ^ 400))]\<close>
  \<open>safe_json (stub_env t) ''{"status":"error","message":"Job not found"}'' =
     Inr [(''status'', JStr ''error''), (''message'', JStr ''Job not found'')]\<close>
  \<open>safe_json (stub_env t) ''{"status":"error","message":"Too many requests"}'' =
     Inr [(''status'', JStr ''error''), (''message'', JStr ''Too many requests'')]\<close>
  \<open>safe_json (stub_env t) ''{"message":""}'' = Inr [(''message'', JStr [])]\<close>
  \<open>safe_json (stub_env t) ''<html>'' = Inr [(''message'', JStr ''Invalid JSON response'')]\<close>
  \<open>safe_json (stub_env t) ''[1,2]'' = Inr [(''message'', JStr ''Invalid JSON response'')]\<close>
  by (simp_all add: safe_json_def stub_env_def stub_loads_def)

lemma stub_decode_raises:
  "safe_json (stub_env t) (replicate 4301 CHR ''1'') = Inl ValueError"
  "safe_json (stub_env t) (replicate 1100 CHR ''['') = Inl RecursionError"
  by (simp_all add: safe_json_def stub_env_def stub_loads_def list_all_replicate)

lemma stub_normalize_ok:
  "normalize_success c (stub_env t) act
     [(''processing_time_ms'', JFloat (33 / 4)), (''job_key'', JStr ''abc123de'')] =
   Inr [(''ok'', JBool True), (''action'', JStr act), (''jobKey'', JStr ''abc123de''),
        (''timestamp'', JStr []), (''processingTimeMs'', JFloat (33 / 4)),
        (''nextExpected'', JNull),
        (''raw'', JObj [(''processing_time_ms'', JFloat (33 / 4)),
                        (''job_key'', JStr ''abc123de'')])]"
  by (simp add: normalize_success_def stub_env_def dict_get_def)

lemma stub_normalize_huge:
  "normalize_success c (stub_env t) act [(''processing_time_ms'', JInt (10 ^ 400))] =
   Inl OverflowError"
  by (simp add: normalize_success_def stub_env_def stub_float_of_int_def dict_get_def)

lemma ping_loop:
  "ping c env =
     request_loop c env ''ping''
       \<lparr>req_method = ''POST'', req_url = base_url c @ ''/ping/'' @ job_key c,
        req_headers = [(''Content-Type'', ''application/json''),
                       (''Accept'', ''application/json''),
                       (''User-Agent'', user_agent c)],
        req_body = None, req_timeout_ms = timeout_ms c\<rparr> 0 0 []"
  by (simp add: ping_def request_def)

subsection \<open>Termination\<close>

text \<open>
  Claim C10. For every configuration (any integer \<open>max_retries\<close>) and every
  behaviour of the transport, the loop started by a call ends: it yields a result,
  after at least one transport invocation and at most \<open>max max_retries 0 + 1\<close>. The
  measure is \<open>max_retries - attempt\<close>: a retry happens only below \<open>max_retries\<close> and
  raises \<open>attempt\<close> by one.
\<close>

theorem request_loop_terminates:
  "\<exists>res calls slept. request_loop c env act req 0 0 [] = Some (res, calls, slept)
      \<and> 1 \<le> calls \<and> int calls \<le> max (max_retries c) 0 + 1"
proof -
  from request_loop_bound [of c 0 "nat (max_retries c)" env act req 0 "[]"]
  obtain res calls slept where
    "request_loop c env act req 0 0 [] = Some (res, calls, slept)"
    "0 < calls" "calls \<le> 1 + nat (max_retries c)"
    by auto
  then show ?thesis by (intro exI [of _ res] exI [of _ calls] exI [of _ slept]) auto
qed

subsection \<open>Statuses that are not retried\<close>

text \<open>
  When the body of a response decodes (or is replaced by the placeholder), a status
  outside 2xx that \<open>map_error\<close> classifies as not retryable ends the call with that
  one invocation, whatever \<open>max_retries\<close> and the attempt count are: the call raises
  the \<^verbatim>\<open>ApiError\<close> of the status, and no sleep is added. For 404 the code is
  \<^verbatim>\<open>NOT_FOUND\<close>, for 400 it is \<^verbatim>\<open>VALIDATION_ERROR\<close>.
\<close>

lemma non_retryable_status_decoded:
  assumes "http_client env calls req = Returns r"
    and "safe_json env (body r) = Inr decoded"
    and "\<not> (200 \<le> status r \<and> status r < 300)"
    and "\<not> snd (map_error (status r))"
  shows "request_loop c env act req attempt calls slept =
           Some (Inl (ApiError
                   \<lparr>code = fst (map_error (status r)),
                    message = py_str env (dict_get decoded ''message'' (JStr ''Request failed'')),
                    http_status = Some (status r), retryable = False,
                    raw = RawPayload decoded\<rparr>),
                 calls + 1, slept)"
proof -
  from assms(4) have "\<not> (snd (map_error (status r)) \<and> attempt < max_retries c)" by simp
  from loop_returns_final [OF assms(1,2,3) this] assms(4) show ?thesis by simp
qed

lemma not_found_decoded:
  assumes "http_client env calls req = Returns r"
    and "safe_json env (body r) = Inr decoded"
    and "status r = 404"
  shows "request_loop c env act req attempt calls slept =
           Some (Inl (ApiError
                   \<lparr>code = ''NOT_FOUND'',
                    message = py_str env (dict_get decoded ''message'' (JStr ''Request failed'')),
                    http_status = Some 404, retryable = False,
                    raw = RawPayload decoded\<rparr>),
                 calls + 1, slept)"
  using non_retryable_status_decoded [OF assms(1,2), of c act attempt slept] assms(3)
  by (simp add: map_error_def)

lemma validation_error_decoded:
  assumes "http_client env calls req = Returns r"
    and "safe_json env (body r) = Inr decoded"
    and "status r = 400"
  shows "request_loop c env act req attempt calls slept =
           Some (Inl (ApiError
                   \<lparr>code = ''VALIDATION_ERROR'',
                    message = py_str env (dict_get decoded ''message'' (JStr ''Request failed'')),
                    http_status = Some 400, retryable = False,
                    raw = RawPayload decoded\<rparr>),
                 calls + 1, slept)"
  using non_retryable_status_decoded [OF assms(1,2), of c act attempt slept] assms(3)
  by (simp add: map_error_def)

lemma ping_not_found_example:
  \<open>ping default_client
     (stub_env (scripted
        [Returns \<lparr>status = 404, body = ''{"status":"error","message":"Job not found"}'',
                  headers = []\<rparr>])) =
   Some (Inl (ApiError
           \<lparr>code = ''NOT_FOUND'', message = ''Job not found'', http_status = Some 404,
            retryable = False,
            raw = RawPayload [(''status'', JStr ''error''), (''message'', JStr ''Job not found'')]\<rparr>),
         1, [])\<close>
proof -
  let ?r = \<open>\<lparr>status = 404, body = ''{"status":"error","message":"Job not found"}'',
             headers = []\<rparr>\<close>
  have d: "safe_json (stub_env (scripted [Returns ?r])) (body ?r) =
             Inr [(''status'', JStr ''error''), (''message'', JStr ''Job not found'')]"
    by (simp add: stub_decode)
  have s: "status ?r = 404" by simp
  show ?thesis
    unfolding ping_loop not_found_decoded [OF stub_scripted(1) d s]
    by (simp add: dict_get_def)
qed

text \<open>
  Claim C3 does not hold for a 404 response whose body makes \<^verbatim>\<open>json.loads\<close> raise
  something other than \<^verbatim>\<open>JSONDecodeError\<close>: the body is decoded before the status is
  looked at, \<^verbatim>\<open>_safe_json\<close> lets the exception through, and the call ends after its
  one invocation with that exception and not with an \<^verbatim>\<open>ApiError\<close> of code
  \<^verbatim>\<open>NOT_FOUND\<close>. Here the body is 1100 opening brackets.
\<close>

theorem not_found_with_deep_body_raises:
  "ping default_client
     (stub_env (scripted
        [Returns \<lparr>status = 404, body = replicate 1100 CHR ''['', headers = []\<rparr>])) =
   Some (Inl (Uncaught RecursionError), 1, [])"
  unfolding ping_loop
  by (subst loop_returns_uncaught [OF stub_scripted(1)])
     (simp_all add: stub_decode_raises)

subsection \<open>Bodies that are not a JSON object\<close>

text \<open>
  A body that \<^verbatim>\<open>json.loads\<close> rejects with \<^verbatim>\<open>JSONDecodeError\<close>, or decodes to something
  that is no object, is replaced by the placeholder, and the loop goes on with it as
  with any payload. A body on which \<^verbatim>\<open>json.loads\<close> raises anything else is not
  replaced: the exception leaves \<open>safe_json\<close> and ends the call.
\<close>

lemma safe_json_placeholder:
  "json_loads env text = JSONDecodeError \<or>
   (\<exists>v. json_loads env text = Decoded v \<and> (\<forall>d. v \<noteq> JObj d)) \<Longrightarrow>
   safe_json env text = Inr [(''message'', JStr ''Invalid JSON response'')]"
  by (auto simp: safe_json_def split: json.splits)

lemma safe_json_raises:
  "json_loads env text = LoadsRaises e \<Longrightarrow> safe_json env text = Inl e"
  by (simp add: safe_json_def)

lemma normalize_success_placeholder:
  "normalize_success c env act [(''message'', JStr ''Invalid JSON response'')] =
     Inr [(''ok'', JBool True), (''action'', JStr act), (''jobKey'', JStr (job_key c)),
          (''timestamp'', JStr []), (''processingTimeMs'', JFloat (float_zero env)),
          (''nextExpected'', JNull),
          (''raw'', JObj [(''message'', JStr ''Invalid JSON response'')])]"
  by (simp add: normalize_success_def dict_get_def)

lemma rejected_body_is_replaced:
  assumes resp: "http_client env calls req = Returns r"
    and bad: "json_loads env (body r) = JSONDecodeError \<or>
              (\<exists>v. json_loads env (body r) = Decoded v \<and> (\<forall>d. v \<noteq> JObj d))"
  shows "request_loop c env act req attempt calls slept =
      (if 200 \<le> status r \<and> status r < 300 then
         Some (Inr [(''ok'', JBool True), (''action'', JStr act), (''jobKey'', JStr (job_key c)),
                    (''timestamp'', JStr []), (''processingTimeMs'', JFloat (float_zero env)),
                    (''nextExpected'', JNull),
                    (''raw'', JObj [(''message'', JStr ''Invalid JSON response'')])],
               calls + 1, slept)
       else if snd (map_error (status r)) \<and> attempt < max_retries c then
         (case sleep_with_backoff c env (attempt + 1) of
            Inl e \<Rightarrow> Some (Inl (Uncaught e), calls + 1, slept)
          | Inr ms \<Rightarrow> request_loop c env act req (attempt + 1) (calls + 1) (slept @ [ms]))
       else
         Some (Inl (ApiError
                 \<lparr>code = fst (map_error (status r)),
                  message = ''Invalid JSON response'',
                  http_status = Some (status r),
                  retryable = snd (map_error (status r)),
                  raw = RawPayload [(''message'', JStr ''Invalid JSON response'')]\<rparr>),
               calls + 1, slept))"
proof -
  from bad have sj: "safe_json env (body r) = Inr [(''message'', JStr ''Invalid JSON response'')]"
    by (rule safe_json_placeholder)
  show ?thesis
  proof (cases "200 \<le> status r \<and> status r < 300")
    case True
    with loop_returns_success [OF resp sj, of c act attempt slept] show ?thesis
      by (simp add: normalize_success_placeholder)
  next
    case no2xx: False
    show ?thesis
    proof (cases "snd (map_error (status r)) \<and> attempt < max_retries c")
      case True
      with no2xx show ?thesis
        using loop_returns_retry [OF resp sj no2xx, where c = c and attempt = attempt
                and act = act and slept = slept] by auto
    next
      case False
      with no2xx show ?thesis
        using loop_returns_final [OF resp sj no2xx False, where act = act and slept = slept]
        by (auto simp: dict_get_def)
    qed
  qed
qed

lemma ping_html_example:
  "ping default_client
     (stub_env (scripted [Returns \<lparr>status = 200, body = ''<html>'', headers = []\<rparr>])) =
     Some (Inr [(''ok'', JBool True), (''action'', JStr ''ping''), (''jobKey'', JStr ''abc123de''),
                (''timestamp'', JStr []), (''processingTimeMs'', JFloat 0),
                (''nextExpected'', JNull),
                (''raw'', JObj [(''message'', JStr ''Invalid JSON response'')])],
           1, [])"
proof -
  let ?r = "\<lparr>status = 200, body = ''<html>'', headers = []\<rparr>"
  have d: "safe_json (stub_env (scripted [Returns ?r])) (body ?r) =
             Inr [(''message'', JStr ''Invalid JSON response'')]"
    by (simp add: stub_decode)
  have s: "200 \<le> status ?r" "status ?r < 300" by simp_all
  show ?thesis
    unfolding ping_loop loop_returns_success [OF stub_scripted(1) d s]
    by (simp add: normalize_success_placeholder) (simp add: stub_env_def default_client_def)
qed

text \<open>
  Claim C7 does not hold: a failure of \<^verbatim>\<open>json.loads\<close> other than \<^verbatim>\<open>JSONDecodeError\<close> is
  not recovered. \<^verbatim>\<open>_safe_json\<close> catches \<^verbatim>\<open>json.JSONDecodeError\<close> alone, and a body that is
  an integer literal of 4301 digits makes \<^verbatim>\<open>json.loads\<close> raise a plain \<^verbatim>\<open>ValueError\<close>,
  which reaches the caller of \<^verbatim>\<open>ping\<close> in place of a result with the placeholder.
\<close>

theorem long_integer_body_raises:
  "ping default_client
     (stub_env (scripted
        [Returns \<lparr>status = 200, body = replicate 4301 CHR ''1'', headers = []\<rparr>])) =
   Some (Inl (Uncaught ValueError), 1, [])"
  unfolding ping_loop
  by (subst loop_returns_uncaught [OF stub_scripted(1)])
     (simp_all add: stub_decode_raises)

subsection \<open>The job key\<close>

lemma base62_chars_in_ranges:
  "list_all (in_ranges [(CHR ''a'', CHR ''z''), (CHR ''A'', CHR ''Z''), (CHR ''0'', CHR ''9'')])
     (''abcdefghijklmnopqrstuvwxyz'' @ ''ABCDEFGHIJKLMNOPQRSTUVWXYZ'' @ ''0123456789'')"
  by code_simp

lemma base62_codes:
  "(map char_of ([97..<123] @ [65..<91] @ [48..<58] :: nat list) :: string) =
     ''abcdefghijklmnopqrstuvwxyz'' @ ''ABCDEFGHIJKLMNOPQRSTUVWXYZ'' @ ''0123456789''"
  by code_simp

lemma in_ranges_base62:
  "in_ranges [(CHR ''a'', CHR ''z''), (CHR ''A'', CHR ''Z''), (CHR ''0'', CHR ''9'')] ch \<longleftrightarrow>
   ch \<in> set (''abcdefghijklmnopqrstuvwxyz'' @ ''ABCDEFGHIJKLMNOPQRSTUVWXYZ'' @ ''0123456789'')"
  (is "?l = ?r")
proof
  assume ?r
  with base62_chars_in_ranges show ?l
    unfolding list_all_iff by blast
next
  assume l: ?l
  define n where "n = (of_char ch :: nat)"
  have ch: "ch = char_of n" by (simp add: n_def)
  from l have "(97 \<le> n \<and> n \<le> 122) \<or> (65 \<le> n \<and> n \<le> 90) \<or> (48 \<le> n \<and> n \<le> 57)"
    by (simp add: in_ranges_def n_def)
  then have "n \<in> {97..<123} \<union> ({65..<91} \<union> {48..<58})"
    by (simp only: Un_iff atLeastLessThan_iff) arith
  then have "n \<in> set ([97..<123] @ [65..<91] @ [48..<58])"
    by (simp only: set_append set_upt)
  then have "char_of n \<in> set (map char_of ([97..<123] @ [65..<91] @ [48..<58]) :: string)"
    unfolding set_map by (rule imageI)
  then show ?r unfolding base62_codes ch .
qed

lemma fullmatch_repeat_iff:
  "fullmatch_repeat rs n s \<longleftrightarrow> length s = n \<and> (\<forall>ch \<in> set s. in_ranges rs ch)"
  by (induction rs n s rule: fullmatch_repeat.induct) auto

lemma assert_job_key_spec:
  "assert_job_key k =
     (if spec_job_key k then Inr ()
      else Inl (ValidationError ''jobKey must be exactly 8 Base62 characters.''))"
  unfolding assert_job_key_def spec_job_key_def fullmatch_repeat_iff in_ranges_base62
  by simp

text \<open>
  Claim C8. Constructing a client with a job key that is not exactly 8 ASCII letters
  or digits raises \<^verbatim>\<open>ValidationError\<close>, whatever the options; with a key that is,
  construction succeeds and the client holds that key. The constructor is a function
  of the key and the options alone, so it makes no transport invocation.
\<close>

theorem job_key_validation:
  "(\<not> spec_job_key k \<longrightarrow>
      (PingClient k opts :: 'f error + config) =
        Inl (ValidationError ''jobKey must be exactly 8 Base62 characters.'')) \<and>
   (spec_job_key k \<longrightarrow>
      (\<exists>c. (PingClient k opts :: 'f error + config) = Inr c \<and> job_key c = k))"
  by (simp add: PingClient_def assert_job_key_spec)

lemma spec_job_key_examples:
  "spec_job_key ''abc123de''" "\<not> spec_job_key ''invalid-key''" "\<not> spec_job_key ''abc123d''"
  by (simp_all add: spec_job_key_def)

theorem job_key_validation_witness:
  "\<not> spec_job_key ''invalid-key'' \<and>
   (PingClient ''invalid-key'' no_options :: rat error + config) =
      Inl (ValidationError ''jobKey must be exactly 8 Base62 characters.'') \<and>
   spec_job_key ''abc123de'' \<and>
   (\<exists>c. (PingClient ''abc123de'' no_options :: rat error + config) = Inr c \<and>
        job_key c = ''abc123de'')"
  using job_key_validation [of "''invalid-key''" no_options, where 'f = rat]
        job_key_validation [of "''abc123de''" no_options, where 'f = rat]
        spec_job_key_examples
  by blast

lemma PingClient_default:
  "(PingClient ''abc123de'' no_options :: 'f error + config) = Inr default_client"
  by (simp add: PingClient_def assert_job_key_spec spec_job_key_examples no_options_def
        default_client_def rstrip_def)

subsection \<open>Backoff\<close>

lemma randint_bounds:
  "randint env n lo hi = Inr j \<Longrightarrow> lo \<le> j \<and> j \<le> hi"
proof -
  assume a: "randint env n lo hi = Inr j"
  then have le: "lo \<le> hi" by (auto simp: randint_def split: if_splits)
  from a have j: "j = lo + int (random_draw env n mod nat (hi - lo + 1))"
    by (auto simp: randint_def split: if_splits)
  from le have "random_draw env n mod nat (hi - lo + 1) < nat (hi - lo + 1)"
    by (intro mod_less_divisor) simp
  with j le show ?thesis by linarith
qed

lemma sleep_with_backoff_length:
  assumes "sleep_with_backoff c env n = Inr ms"
  shows "\<exists>j. randint env n 0 (max 0 (retry_jitter_ms c)) = Inr j \<and>
             0 \<le> j \<and> j \<le> max 0 (retry_jitter_ms c) \<and>
             ms = retry_backoff_ms c * 2 ^ nat (max 0 (n - 1)) + j \<and>
             time_sleep env ms = None"
proof (cases "randint env n 0 (max 0 (retry_jitter_ms c))")
  case (Inl e)
  with assms show ?thesis by (simp add: sleep_with_backoff_def)
next
  case (Inr j)
  with assms have "ms = retry_backoff_ms c * 2 ^ nat (max 0 (n - 1)) + j \<and> time_sleep env ms = None"
    by (auto simp: sleep_with_backoff_def Let_def split: option.splits)
  with Inr randint_bounds [OF Inr] show ?thesis by blast
qed

lemma request_loop_sleeps:
  "nat (max_retries c - attempt) = m \<Longrightarrow> 0 \<le> attempt \<Longrightarrow>
   request_loop c env act req attempt calls slept = Some (res, calls', slept') \<Longrightarrow>
   \<exists>extra. slept' = slept @ extra \<and> calls' = calls + length extra + 1 \<and>
     (\<forall>i < length extra. \<exists>j.
         randint env (attempt + 1 + int i) 0 (max 0 (retry_jitter_ms c)) = Inr j \<and>
         0 \<le> j \<and> j \<le> max 0 (retry_jitter_ms c) \<and>
         extra ! i = retry_backoff_ms c * 2 ^ (nat attempt + i) + j)"
proof (induction m arbitrary: attempt calls slept)
  case 0
  then have "\<not> attempt < max_retries c" by simp
  with loop_step [of c env act req attempt calls slept] "0.prems"(3)
  have "slept' = slept \<and> calls' = calls + 1" by auto
  then show ?case by simp
next
  case (Suc m)
  from loop_step [of c env act req attempt calls slept] show ?case
  proof
    assume "\<exists>res. request_loop c env act req attempt calls slept = Some (res, calls + 1, slept)"
    with Suc.prems(3) have "slept' = slept \<and> calls' = calls + 1" by auto
    then show ?thesis by simp
  next
    assume "attempt < max_retries c \<and>
      (\<exists>ms. sleep_with_backoff c env (attempt + 1) = Inr ms \<and>
         request_loop c env act req attempt calls slept =
           request_loop c env act req (attempt + 1) (calls + 1) (slept @ [ms]))"
    then obtain ms where
      sl: "sleep_with_backoff c env (attempt + 1) = Inr ms" and
      eq: "request_loop c env act req attempt calls slept =
             request_loop c env act req (attempt + 1) (calls + 1) (slept @ [ms])"
      by blast
    from sleep_with_backoff_length [OF sl] Suc.prems(2) obtain j0 where
      j0: "randint env (attempt + 1) 0 (max 0 (retry_jitter_ms c)) = Inr j0"
          "0 \<le> j0" "j0 \<le> max 0 (retry_jitter_ms c)"
          "ms = retry_backoff_ms c * 2 ^ nat attempt + j0"
      by auto
    from Suc.prems have m: "nat (max_retries c - (attempt + 1)) = m" and nn: "0 \<le> attempt + 1"
      by simp_all
    from Suc.prems(3) eq have
      "request_loop c env act req (attempt + 1) (calls + 1) (slept @ [ms]) = Some (res, calls', slept')"
      by simp
    from Suc.IH [OF m nn this] obtain extra where
      ex: "slept' = (slept @ [ms]) @ extra" "calls' = calls + 1 + length extra + 1"
          "\<forall>i < length extra. \<exists>j.
             randint env (attempt + 1 + 1 + int i) 0 (max 0 (retry_jitter_ms c)) = Inr j \<and>
             0 \<le> j \<and> j \<le> max 0 (retry_jitter_ms c) \<and>
             extra ! i = retry_backoff_ms c * 2 ^ (nat (attempt + 1) + i) + j"
      by blast
    have "\<forall>i < length (ms # extra). \<exists>j.
         randint env (attempt + 1 + int i) 0 (max 0 (retry_jitter_ms c)) = Inr j \<and>
         0 \<le> j \<and> j \<le> max 0 (retry_jitter_ms c) \<and>
         (ms # extra) ! i = retry_backoff_ms c * 2 ^ (nat attempt + i) + j"
    proof (intro allI impI)
      fix i assume i: "i < length (ms # extra)"
      show "\<exists>j. randint env (attempt + 1 + int i) 0 (max 0 (retry_jitter_ms c)) = Inr j \<and>
         0 \<le> j \<and> j \<le> max 0 (retry_jitter_ms c) \<and>
         (ms # extra) ! i = retry_backoff_ms c * 2 ^ (nat attempt + i) + j"
      proof (cases i)
        case 0
        with j0 show ?thesis by simp
      next
        case (Suc k)
        with i have k: "k < length extra" by simp
        from Suc.prems(2) have e: "nat (attempt + 1) + k = nat attempt + i"
          unfolding Suc by simp
        have a: "attempt + 1 + 1 + int k = attempt + 1 + int i" unfolding Suc by simp
        from ex(3) k obtain j where
          "randint env (attempt + 1 + 1 + int k) 0 (max 0 (retry_jitter_ms c)) = Inr j"
          "0 \<le> j" "j \<le> max 0 (retry_jitter_ms c)"
          "extra ! k = retry_backoff_ms c * 2 ^ (nat (attempt + 1) + k) + j"
          by blast
        then have
          "randint env (attempt + 1 + int i) 0 (max 0 (retry_jitter_ms c)) = Inr j \<and>
           0 \<le> j \<and> j \<le> max 0 (retry_jitter_ms c) \<and>
           (ms # extra) ! i = retry_backoff_ms c * 2 ^ (nat attempt + i) + j"
          unfolding e a by (simp add: Suc)
        then show ?thesis by blast
      qed
    qed
    with ex(1,2) show ?thesis
      by (intro exI [of _ "ms # extra"]) simp
  qed
qed

text \<open>Every value between the bounds is a possible draw.\<close>

lemma randint_every_value:
  assumes "lo \<le> j" and "j \<le> hi"
  shows "randint (env\<lparr>random_draw := \<lambda>_. nat (j - lo)\<rparr>) n lo hi = Inr j"
proof -
  from assms have "nat (j - lo) < nat (hi - lo + 1)" by simp
  with assms show ?thesis by (simp add: randint_def)
qed

text \<open>
  In a call, every sleep that returned is followed by another invocation and has the
  length of the formula.
\<close>

lemma returned_sleep_lengths:
  assumes "request_loop c env act req 0 0 [] = Some (res, calls, slept)"
    and "1 \<le> n" and "n \<le> length slept"
  shows "n < calls \<and>
         (\<exists>j. randint env (int n) 0 (max 0 (retry_jitter_ms c)) = Inr j \<and>
               0 \<le> j \<and> j \<le> max 0 (retry_jitter_ms c) \<and>
               slept ! (n - 1) = retry_backoff_ms c * 2 ^ (n - 1) + j)"
proof -
  from request_loop_sleeps [OF refl _ assms(1)] obtain extra where
    ex: "slept = extra" "calls = length extra + 1"
        "\<forall>i < length extra. \<exists>j.
           randint env (0 + 1 + int i) 0 (max 0 (retry_jitter_ms c)) = Inr j \<and>
           0 \<le> j \<and> j \<le> max 0 (retry_jitter_ms c) \<and>
           extra ! i = retry_backoff_ms c * 2 ^ (nat 0 + i) + j"
    by auto
  from assms(2,3) ex(1) have i: "n - 1 < length extra" by simp
  from assms(2) have n: "0 + 1 + int (n - 1) = int n" by simp
  from ex(3) i have "\<exists>j. randint env (0 + 1 + int (n - 1)) 0 (max 0 (retry_jitter_ms c)) = Inr j \<and>
           0 \<le> j \<and> j \<le> max 0 (retry_jitter_ms c) \<and>
           extra ! (n - 1) = retry_backoff_ms c * 2 ^ (nat 0 + (n - 1)) + j"
    by blast
  with assms(3) ex(1,2) show ?thesis unfolding n by simp
qed

lemma sleep_with_backoff_eq:
  fixes n :: nat
  shows "sleep_with_backoff c env (int n) =
     (case time_sleep env
             (retry_backoff_ms c * 2 ^ (n - 1)
              + int (random_draw env (int n) mod nat (max 0 (retry_jitter_ms c) + 1))) of
        Some e \<Rightarrow> Inl e
      | None \<Rightarrow>
          Inr (retry_backoff_ms c * 2 ^ (n - 1)
               + int (random_draw env (int n) mod nat (max 0 (retry_jitter_ms c) + 1))))"
proof -
  have "nat (max 0 (int n - 1)) = n - 1" by simp
  then show ?thesis
    by (simp add: sleep_with_backoff_def randint_def Let_def split: option.splits)
qed

text \<open>
  Claim C9. At the \<open>n\<close>-th retry (\<open>n\<close> counted from 1: the loop is at attempt count
  \<open>n - 1\<close>, below \<open>max_retries\<close>, and the invocation failed at the transport level or
  answered a retryable status), the loop calls \<^verbatim>\<open>time.sleep\<close> on exactly
  \<open>retry_backoff_ms * 2 ^ (n - 1) + j\<close> milliseconds before it invokes the transport
  again, and when that sleep raises, the call ends with its exception. The sum is
  computed in unbounded integers. \<open>j\<close> is what \<^verbatim>\<open>random.randint\<close> draws between 0 and
  \<open>retry_jitter_ms\<close>, both included, with a negative \<open>retry_jitter_ms\<close> taken as 0.
  The draw is uniform: it is the rank that the random source supplies, and each of
  the equally likely ranks \<open>0, ..., max 0 retry_jitter_ms\<close> gives the \<open>j\<close> of that
  value.
\<close>

theorem backoff_sleep:
  fixes n :: nat
  shows
    "let hi = max 0 (retry_jitter_ms c);
         j = int (random_draw env (int n) mod nat (hi + 1));
         ms = retry_backoff_ms c * 2 ^ (n - 1) + j
     in 0 \<le> j \<and> j \<le> hi \<and>
        randint env (int n) 0 hi = Inr j \<and>
        (\<forall>rank. int rank \<le> hi \<longrightarrow>
           randint (env\<lparr>random_draw := \<lambda>_. rank\<rparr>) (int n) 0 hi = Inr (int rank)) \<and>
        sleep_with_backoff c env (int n) =
          (case time_sleep env ms of Some e \<Rightarrow> Inl e | None \<Rightarrow> Inr ms) \<and>
        (1 \<le> n \<and> int n \<le> max_retries c \<and>
         ((\<exists>exc. http_client env calls req = Raises exc) \<or>
          (\<exists>r decoded. http_client env calls req = Returns r \<and>
              safe_json env (body r) = Inr decoded \<and>
              \<not> (200 \<le> status r \<and> status r < 300) \<and> snd (map_error (status r)))) \<longrightarrow>
         request_loop c env act req (int n - 1) calls slept =
           (case time_sleep env ms of
              Some e \<Rightarrow> Some (Inl (Uncaught e), calls + 1, slept)
            | None \<Rightarrow> request_loop c env act req (int n) (calls + 1) (slept @ [ms])))"
proof -
  define hi where "hi = max 0 (retry_jitter_ms c)"
  define j where "j = int (random_draw env (int n) mod nat (hi + 1))"
  define ms where "ms = retry_backoff_ms c * 2 ^ (n - 1) + j"
  have hi: "0 \<le> hi" by (simp add: hi_def)
  then have "random_draw env (int n) mod nat (hi + 1) < nat (hi + 1)"
    by (intro mod_less_divisor) simp
  with hi have j: "0 \<le> j" "j \<le> hi" unfolding j_def by linarith+
  have draw: "randint env (int n) 0 hi = Inr j"
    using hi by (simp add: randint_def j_def)
  have ranks: "\<forall>rank. int rank \<le> hi \<longrightarrow>
      randint (env\<lparr>random_draw := \<lambda>_. rank\<rparr>) (int n) 0 hi = Inr (int rank)"
  proof (intro allI impI)
    fix rank :: nat
    assume "int rank \<le> hi"
    with hi have "rank < nat (hi + 1)" by linarith
    with hi show "randint (env\<lparr>random_draw := \<lambda>_. rank\<rparr>) (int n) 0 hi = Inr (int rank)"
      by (simp add: randint_def)
  qed
  have sl: "sleep_with_backoff c env (int n) =
      (case time_sleep env ms of Some e \<Rightarrow> Inl e | None \<Rightarrow> Inr ms)"
    unfolding ms_def j_def hi_def by (rule sleep_with_backoff_eq)
  have loop: "request_loop c env act req (int n - 1) calls slept =
           (case time_sleep env ms of
              Some e \<Rightarrow> Some (Inl (Uncaught e), calls + 1, slept)
            | None \<Rightarrow> request_loop c env act req (int n) (calls + 1) (slept @ [ms]))"
    if n: "1 \<le> n \<and> int n \<le> max_retries c"
      and retry: "(\<exists>exc. http_client env calls req = Raises exc) \<or>
          (\<exists>r decoded. http_client env calls req = Returns r \<and>
              safe_json env (body r) = Inr decoded \<and>
              \<not> (200 \<le> status r \<and> status r < 300) \<and> snd (map_error (status r)))"
  proof -
    from n have lt: "int n - 1 < max_retries c" by simp
    have "request_loop c env act req (int n - 1) calls slept =
        (case sleep_with_backoff c env (int n - 1 + 1) of
           Inl e \<Rightarrow> Some (Inl (Uncaught e), calls + 1, slept)
         | Inr ms \<Rightarrow> request_loop c env act req (int n - 1 + 1) (calls + 1) (slept @ [ms]))"
      using retry
    proof
      assume "\<exists>exc. http_client env calls req = Raises exc"
      then obtain exc where "http_client env calls req = Raises exc" ..
      from loop_raises_retry [OF this lt] show ?thesis .
    next
      assume "\<exists>r decoded. http_client env calls req = Returns r \<and>
              safe_json env (body r) = Inr decoded \<and>
              \<not> (200 \<le> status r \<and> status r < 300) \<and> snd (map_error (status r))"
      then obtain r decoded where
        "http_client env calls req = Returns r" "safe_json env (body r) = Inr decoded"
        "\<not> (200 \<le> status r \<and> status r < 300)" "snd (map_error (status r))"
        by blast
      from loop_returns_retry [OF this lt] show ?thesis .
    qed
    then show ?thesis
      by (simp add: sl split: option.splits)
  qed
  from j draw ranks sl loop show ?thesis
    unfolding Let_def hi_def [symmetric] j_def [symmetric] ms_def [symmetric]
    by blast
qed

subsection \<open>A transport that always fails\<close>

lemma network_error_general:
  assumes sleeps: "\<forall>n. attempt < n \<and> n \<le> max_retries c \<longrightarrow> sleep_with_backoff c env n = Inr (ms n)"
    and fails: "\<forall>k \<ge> calls. http_client env k req = Raises (exc k)"
    and m: "nat (max_retries c - attempt) = m"
  shows "request_loop c env act req attempt calls slept =
           Some (Inl (ApiError \<lparr>code = ''NETWORK_ERROR'', message = exc (calls + m),
                                http_status = None, retryable = True,
                                raw = RawExc (exc (calls + m))\<rparr>),
                 calls + m + 1, slept @ map ms [attempt + 1 .. max_retries c])"
  using assms
proof (induction m arbitrary: attempt calls slept)
  case 0
  then have ge: "max_retries c \<le> attempt" by simp
  from "0.prems"(2) have "http_client env calls req = Raises (exc calls)" by simp
  from loop_raises_final [OF this ge] ge show ?case by simp
next
  case (Suc m)
  then have lt: "attempt < max_retries c" by simp
  from Suc.prems(2) have f: "http_client env calls req = Raises (exc calls)" by simp
  from Suc.prems(1) lt have s: "sleep_with_backoff c env (attempt + 1) = Inr (ms (attempt + 1))"
    by simp
  have step: "request_loop c env act req attempt calls slept =
      request_loop c env act req (attempt + 1) (calls + 1) (slept @ [ms (attempt + 1)])"
    by (simp add: loop_raises_retry [OF f lt] s)
  have ih1: "\<forall>n. attempt + 1 < n \<and> n \<le> max_retries c \<longrightarrow> sleep_with_backoff c env n = Inr (ms n)"
    using Suc.prems(1) by simp
  have ih2: "\<forall>k \<ge> calls + 1. http_client env k req = Raises (exc k)"
    using Suc.prems(2) by simp
  have ih3: "nat (max_retries c - (attempt + 1)) = m" using Suc.prems(3) by simp
  have up: "[attempt + 1 .. max_retries c] = (attempt + 1) # [attempt + 1 + 1 .. max_retries c]"
    using lt by (simp add: upto_rec1)
  from Suc.IH [OF ih1 ih2 ih3, of "slept @ [ms (attempt + 1)]"] show ?case
    unfolding step up by simp
qed

lemma always_failing:
  "http_client (stub_env always_failing) k req = Raises ''socket timeout''"
  by (simp add: stub_env_def always_failing_def)

lemma always_failing_eval:
  "request_loop default_client (stub_env always_failing) act req 0 0 [] =
     Some (Inl (ApiError \<lparr>code = ''NETWORK_ERROR'', message = ''socket timeout'',
                          http_status = None, retryable = True,
                          raw = RawExc ''socket timeout''\<rparr>),
           3, [260, 517])"
proof -
  have f: "\<forall>k \<ge> 0. http_client (stub_env always_failing) k req = Raises ''socket timeout''"
    by (simp add: always_failing)
  have u: "[1 .. 2] = [1, 2 :: int]"
    by (simp add: upto_rec1)
  have m: "max_retries default_client = 2" by (simp add: default_client_def)
  from network_error_general [OF stub_sleeps_default f refl, where act = act and slept = "[]"]
  show ?thesis by (simp add: m u)
qed

theorem backoff_sleep_witness:
  "sleep_with_backoff default_client (stub_env always_failing) 2 = Inr 517 \<and>
   randint ((stub_env always_failing)\<lparr>random_draw := \<lambda>_. 42\<rparr>) 2 0 100 = Inr 42 \<and>
   request_loop default_client (stub_env always_failing) ''ping''
     \<lparr>req_method = ''POST'',
               req_url = base_url default_client @ ''/ping/'' @ job_key default_client,
               req_headers = [(''Content-Type'', ''application/json''),
                              (''Accept'', ''application/json''),
                              (''User-Agent'', user_agent default_client)],
               req_body = None, req_timeout_ms = timeout_ms default_client\<rparr>
     1 1 [260] =
   Some (Inl (ApiError \<lparr>code = ''NETWORK_ERROR'', message = ''socket timeout'',
                        http_status = None, retryable = True,
                        raw = RawExc ''socket timeout''\<rparr>),
         3, [260, 517])"
proof -
  let ?E = "stub_env always_failing"
  let ?req = "\<lparr>req_method = ''POST'',
               req_url = base_url default_client @ ''/ping/'' @ job_key default_client,
               req_headers = [(''Content-Type'', ''application/json''),
                              (''Accept'', ''application/json''),
                              (''User-Agent'', user_agent default_client)],
               req_body = None, req_timeout_ms = timeout_ms default_client\<rparr>"
  have m: "max_retries default_client = 2" and b: "retry_backoff_ms default_client = 250"
    and jt: "retry_jitter_ms default_client = 100"
    by (simp_all add: default_client_def)
  have d: "random_draw ?E 2 = 17" by (simp add: stub_env_def)
  have t: "time_sleep ?E 517 = None" by (simp add: stub_time_sleep)
  have final: "request_loop default_client ?E ''ping'' req 2 k [260, 517] =
      Some (Inl (ApiError \<lparr>code = ''NETWORK_ERROR'', message = ''socket timeout'',
                          http_status = None, retryable = True,
                          raw = RawExc ''socket timeout''\<rparr>),
            k + 1, [260, 517])" for k req
    using loop_raises_final [OF always_failing [where k = k and req = req],
            where c = default_client and attempt = 2 and act = "''ping''"
            and slept = "[260, 517]"]
    by (simp add: m)
  from backoff_sleep [where c = default_client and env = ?E and n = 2 and calls = 1
         and req = ?req and act = "''ping''" and slept = "[260]"]
  show ?thesis
    by (simp add: Let_def m b jt d t always_failing final)
qed

text \<open>
  Claim C4, as stated, fails where a backoff sleep raises: with one retry, a backoff
  base of -1 ms and no jitter, the first transport failure raises the attempt count
  to \<open>max_retries\<close>, and the sleep of -1 ms raises \<^verbatim>\<open>ValueError\<close>; the call ends with
  that exception after one invocation and not with an \<^verbatim>\<open>ApiError\<close>.
\<close>

theorem failing_transport_with_negative_backoff_raises:
  "ping negative_backoff_client (stub_env always_failing) =
     Some (Inl (Uncaught ValueError), 1, [])"
proof -
  have mr: "0 < max_retries negative_backoff_client"
    by (simp add: negative_backoff_client_def)
  have f: "http_client (stub_env always_failing) 0 req = Raises ''socket timeout''" for req
    by (simp add: stub_env_def always_failing_def)
  show ?thesis
    unfolding ping_loop
    by (subst loop_raises_retry [OF f mr]) (simp add: stub_sleep_negative)
qed

text \<open>
  Claim C4, amended. If every transport invocation fails with a transport-level
  error and every backoff sleep still ahead returns, then from any attempt count the
  loop retries until the count reaches \<open>max_retries\<close>: each failure before that
  raises the count by one and sleeps with backoff, and the failure at
  \<open>attempt \<ge> max_retries\<close> raises an \<^verbatim>\<open>ApiError\<close> with code \<^verbatim>\<open>NETWORK_ERROR\<close>, no
  HTTP status, \<open>retryable = True\<close> and the text of that last transport error as
  message.
\<close>

theorem network_error_after_retries:
  assumes "\<forall>k \<ge> calls. http_client env k req = Raises (exc k)"
    and "\<forall>n. attempt < n \<and> n \<le> max_retries c \<longrightarrow> sleep_with_backoff c env n = Inr (ms n)"
  shows "request_loop c env act req attempt calls slept =
           Some (Inl (ApiError
                   \<lparr>code = ''NETWORK_ERROR'',
                    message = exc (calls + nat (max_retries c - attempt)),
                    http_status = None, retryable = True,
                    raw = RawExc (exc (calls + nat (max_retries c - attempt)))\<rparr>),
                 calls + nat (max_retries c - attempt) + 1,
                 slept @ map ms [attempt + 1 .. max_retries c])"
  using network_error_general [OF assms(2,1) refl] .

theorem network_error_after_retries_witness:
  "(\<forall>k req. http_client (stub_env always_failing) k req = Raises ''socket timeout'') \<and>
   ping default_client (stub_env always_failing) =
     Some (Inl (ApiError \<lparr>code = ''NETWORK_ERROR'', message = ''socket timeout'',
                          http_status = None, retryable = True,
                          raw = RawExc ''socket timeout''\<rparr>),
           3, [260, 517])"
proof -
  have f: "\<forall>k \<ge> 0. http_client (stub_env always_failing) k req = Raises ''socket timeout''" for req
    by (simp add: always_failing)
  have s: "\<forall>n. 0 < n \<and> n \<le> max_retries default_client \<longrightarrow>
             sleep_with_backoff default_client (stub_env always_failing) n =
               Inr (if n = 1 then 260 else 517)"
    by (rule stub_sleeps_default)
  have u: "[1 .. 2] = [1, 2 :: int]"
    by (simp add: upto_rec1)
  have m: "max_retries default_client = 2" by (simp add: default_client_def)
  show ?thesis
    unfolding ping_loop
    using network_error_after_retries [OF f s, where act = "''ping''" and slept = "[]"]
    by (simp add: m u always_failing)
qed

subsection \<open>One retry, then success\<close>

text \<open>
  Claim C2, as stated, fails for a client whose backoff sleep raises: with
  \<open>max_retries = 1\<close>, a backoff base of -1 ms and no jitter, a 429 response followed
  by a 200 response gives one transport invocation and a \<^verbatim>\<open>ValueError\<close>.
\<close>

theorem retry_with_negative_backoff_raises:
  \<open>1 \<le> max_retries negative_backoff_client \<and>
   ping negative_backoff_client
     (stub_env (scripted
        [Returns \<lparr>status = 429, body = ''{"status":"error","message":"Too many requests"}'',
                  headers = []\<rparr>,
         Returns \<lparr>status = 200, body = ''{"processing_time_ms":8.25,"job_key":"abc123de"}'',
                  headers = []\<rparr>])) =
   Some (Inl (Uncaught ValueError), 1, [])\<close>
proof -
  let ?r = \<open>\<lparr>status = 429, body = ''{"status":"error","message":"Too many requests"}'',
             headers = []\<rparr>\<close>
  have mr: "0 < max_retries negative_backoff_client"
    by (simp add: negative_backoff_client_def)
  have d: "safe_json (stub_env t) (body ?r) =
             Inr [(''status'', JStr ''error''), (''message'', JStr ''Too many requests'')]" for t
    by (simp add: stub_decode)
  have s: "\<not> (200 \<le> status ?r \<and> status ?r < 300)" "snd (map_error (status ?r))"
    by (simp_all add: map_error_def)
  show ?thesis
    unfolding ping_loop loop_returns_retry [OF stub_scripted(1) d s mr]
    using mr by (simp add: stub_sleep_negative)
qed

text \<open>
  Claim C2, amended. For a client with \<open>max_retries \<ge> 1\<close>, if the first transport
  invocation fails at the transport level, or answers 429 with a body that
  \<^verbatim>\<open>json.loads\<close> decodes or rejects with \<^verbatim>\<open>JSONDecodeError\<close>, the backoff sleep of the
  first retry returns, the second invocation answers 200, and the body of that answer
  decodes likewise and normalizes, then the call makes exactly 2 invocations, sleeps
  once and returns the normalized result.
\<close>

theorem retry_once_then_success:
  assumes "1 \<le> max_retries c"
    and first: "(\<exists>exc. http_client env 0 req = Raises exc) \<or>
                (\<exists>r decoded. http_client env 0 req = Returns r \<and> status r = 429 \<and>
                    safe_json env (body r) = Inr decoded)"
    and sleep: "sleep_with_backoff c env 1 = Inr ms"
    and second: "http_client env 1 req = Returns resp" "status resp = 200"
    and decoded: "safe_json env (body resp) = Inr payload"
    and norm: "normalize_success c env act payload = Inr result"
  shows "request_loop c env act req 0 0 [] = Some (Inr result, 2, [ms])"
proof -
  from assms(1) have lt: "0 < max_retries c" by simp
  have "request_loop c env act req 0 0 [] = request_loop c env act req (0 + 1) (0 + 1) ([] @ [ms])"
    using first
  proof
    assume "\<exists>exc. http_client env 0 req = Raises exc"
    then obtain exc where "http_client env 0 req = Raises exc" ..
    from loop_raises_retry [OF this lt] sleep show ?thesis by simp
  next
    assume "\<exists>r decoded. http_client env 0 req = Returns r \<and> status r = 429 \<and>
              safe_json env (body r) = Inr decoded"
    then obtain r d where r: "http_client env 0 req = Returns r" "status r = 429"
      and d: "safe_json env (body r) = Inr d" by blast
    from r have "\<not> (200 \<le> status r \<and> status r < 300)" "snd (map_error (status r))"
      by (simp_all add: map_error_def)
    from loop_returns_retry [OF r(1) d this lt] sleep show ?thesis by simp
  qed
  also have "\<dots> = Some (Inr result, 2, [ms])"
    using loop_returns_success [where env = env and calls = 1 and req = req and r = resp
            and decoded = payload and c = c and act = act and attempt = 1 and slept = "[ms]"]
          second decoded norm
    by simp
  finally show ?thesis .
qed

theorem retry_once_then_success_witness:
  \<open>1 \<le> max_retries default_client \<and>
   sleep_with_backoff default_client
     (stub_env (scripted
        [Returns \<lparr>status = 429, body = ''{"status":"error","message":"Too many requests"}'',
                  headers = []\<rparr>,
         Returns \<lparr>status = 200, body = ''{"processing_time_ms":8.25,"job_key":"abc123de"}'',
                  headers = []\<rparr>])) 1 = Inr 260 \<and>
   ping default_client
     (stub_env (scripted
        [Returns \<lparr>status = 429, body = ''{"status":"error","message":"Too many requests"}'',
                  headers = []\<rparr>,
         Returns \<lparr>status = 200, body = ''{"processing_time_ms":8.25,"job_key":"abc123de"}'',
                  headers = []\<rparr>])) =
   Some (Inr [(''ok'', JBool True), (''action'', JStr ''ping''), (''jobKey'', JStr ''abc123de''),
              (''timestamp'', JStr []), (''processingTimeMs'', JFloat (33 / 4)),
              (''nextExpected'', JNull),
              (''raw'', JObj [(''processing_time_ms'', JFloat (33 / 4)),
                              (''job_key'', JStr ''abc123de'')])],
         2, [260])\<close>
proof -
  let ?r1 = \<open>\<lparr>status = 429, body = ''{"status":"error","message":"Too many requests"}'',
              headers = []\<rparr>\<close>
  let ?r2 = \<open>\<lparr>status = 200, body = ''{"processing_time_ms":8.25,"job_key":"abc123de"}'',
              headers = []\<rparr>\<close>
  let ?req = "\<lparr>req_method = ''POST'',
               req_url = base_url default_client @ ''/ping/'' @ job_key default_client,
               req_headers = [(''Content-Type'', ''application/json''),
                              (''Accept'', ''application/json''),
                              (''User-Agent'', user_agent default_client)],
               req_body = None, req_timeout_ms = timeout_ms default_client\<rparr>"
  have mr: "1 \<le> max_retries default_client" by (simp add: default_client_def)
  show ?thesis
    unfolding ping_loop
    using mr retry_once_then_success [where c = default_client and resp = ?r2 and ms = 260
                and env = "stub_env (scripted [Returns ?r1, Returns ?r2])" and req = ?req
                and act = "''ping''"
                and payload = "[(''processing_time_ms'', JFloat (33 / 4)),
                                (''job_key'', JStr ''abc123de'')]"]
    by (simp add: stub_scripted stub_sleep_default stub_decode stub_normalize_ok)
qed

subsection \<open>Normalizing a success payload\<close>

text \<open>
  What \<open>normalize_success\<close> returns, key by key, whenever \<^verbatim>\<open>float\<close> does not overflow;
  when it does, the \<^verbatim>\<open>OverflowError\<close> leaves the function. The example is the one of
  the test suite.
\<close>

lemma py_float_exceptions:
  "py_float env v = Inl e \<Longrightarrow> e = TypeError \<or> e = ValueError \<or> e = OverflowError"
  by (cases v) (auto split: option.splits)

lemma normalize_success_overflow:
  "py_float env (dict_get payload ''processing_time_ms'' (JFloat (float_zero env))) = Inl OverflowError
   \<Longrightarrow> normalize_success c env act payload = Inl OverflowError"
  by (simp add: normalize_success_def)

lemma normalize_success_fields:
  assumes "py_float env (dict_get payload ''processing_time_ms'' (JFloat (float_zero env)))
             \<noteq> Inl OverflowError"
  shows "normalize_success c env act payload =
     Inr [(''ok'', JBool True),
          (''action'', JStr (case map_of payload ''action'' of
                               None \<Rightarrow> act | Some v \<Rightarrow> py_str env v)),
          (''jobKey'', JStr (case map_of payload ''job_key'' of
                               None \<Rightarrow> job_key c | Some v \<Rightarrow> py_str env v)),
          (''timestamp'', JStr (case map_of payload ''timestamp'' of
                                  None \<Rightarrow> [] | Some v \<Rightarrow> py_str env v)),
          (''processingTimeMs'',
             JFloat (case map_of payload ''processing_time_ms'' of
                       None \<Rightarrow> float_zero env
                     | Some v \<Rightarrow> (case py_float env v of
                                   Inr x \<Rightarrow> x | Inl e \<Rightarrow> float_zero env))),
          (''nextExpected'',
             (case map_of payload ''next_expected'' of
                None \<Rightarrow> JNull
              | Some JNull \<Rightarrow> JNull
              | Some v \<Rightarrow> JStr (py_str env v))),
          (''raw'', JObj payload)]"
proof -
  let ?p = "dict_get payload ''processing_time_ms'' (JFloat (float_zero env))"
  have pm: "(case py_float env ?p of
               Inr x \<Rightarrow> Inr x
             | Inl TypeError \<Rightarrow> Inr (float_zero env)
             | Inl ValueError \<Rightarrow> Inr (float_zero env)
             | Inl e \<Rightarrow> Inl e) =
            (Inr (case map_of payload ''processing_time_ms'' of
                       None \<Rightarrow> float_zero env
                     | Some v \<Rightarrow> (case py_float env v of
                                   Inr x \<Rightarrow> x | Inl e \<Rightarrow> float_zero env)) :: py_exception + 'a)"
    using assms
    by (cases "map_of payload ''processing_time_ms''")
       (auto simp: dict_get_def split: sum.splits py_exception.splits
             dest: py_float_exceptions)
  show ?thesis
    unfolding normalize_success_def Let_def pm
    by (simp add: dict_get_def split: option.splits json.splits)
qed

lemma ping_example:
  \<open>ping default_client
     (stub_env (scripted
        [Returns \<lparr>status = 200, body = ''{"processing_time_ms":8.25,"job_key":"abc123de"}'',
                  headers = []\<rparr>])) =
   Some (Inr [(''ok'', JBool True), (''action'', JStr ''ping''), (''jobKey'', JStr ''abc123de''),
              (''timestamp'', JStr []), (''processingTimeMs'', JFloat (33 / 4)),
              (''nextExpected'', JNull),
              (''raw'', JObj [(''processing_time_ms'', JFloat (33 / 4)),
                              (''job_key'', JStr ''abc123de'')])],
         1, [])\<close>
proof -
  let ?r = \<open>\<lparr>status = 200, body = ''{"processing_time_ms":8.25,"job_key":"abc123de"}'',
             headers = []\<rparr>\<close>
  have d: "safe_json (stub_env (scripted [Returns ?r])) (body ?r) =
             Inr [(''processing_time_ms'', JFloat (33 / 4)), (''job_key'', JStr ''abc123de'')]"
    by (simp add: stub_decode)
  have s: "200 \<le> status ?r" "status ?r < 300" by simp_all
  show ?thesis
    unfolding ping_loop loop_returns_success [OF stub_scripted(1) d s]
    by (simp add: stub_normalize_ok)
qed

text \<open>
  Claim C5 does not hold for a payload whose \<^verbatim>\<open>processing_time_ms\<close> is an integer
  beyond the range of a float: \<^verbatim>\<open>float\<close> raises \<^verbatim>\<open>OverflowError\<close>, the \<^verbatim>\<open>except\<close>
  clause names only \<^verbatim>\<open>TypeError\<close> and \<^verbatim>\<open>ValueError\<close>, and the call raises instead of
  returning a record with \<open>processingTimeMs = 0.0\<close>. Here the 200 response carries
  a 1 followed by 400 zeros.
\<close>

theorem huge_processing_time_raises:
  \<open>ping default_client
     (stub_env (scripted
        [Returns \<lparr>status = 200,
                  body = ''{"processing_time_ms":1'' @ replicate 400 CHR ''0'' @ ''}'',
                  headers = []\<rparr>])) =
   Some (Inl (Uncaught OverflowError), 1, [])\<close>
proof -
  let ?r = \<open>\<lparr>status = 200,
              body = ''{"processing_time_ms":1'' @ replicate 400 CHR ''0'' @ ''}'',
              headers = []\<rparr>\<close>
  have d: "safe_json (stub_env (scripted [Returns ?r])) (body ?r) =
             Inr [(''processing_time_ms'', JInt (10 ^ 400))]"
    using stub_decode(2) by simp
  have s: "200 \<le> status ?r" "status ?r < 300" by simp_all
  show ?thesis
    unfolding ping_loop loop_returns_success [OF stub_scripted(1) d s] stub_normalize_huge
    by simp
qed

subsection \<open>Progress with a bare integer\<close>

lemma progress_request_seq:
  "0 \<le> n \<Longrightarrow>
   progress_request c (Seq n) m =
     Inr (''progress'', ''/ping/'' @ job_key c @ ''/progress/'' @ str_int n,
          [(''message'',
            JStr (let t = (case m of None \<Rightarrow> [] | Some t \<Rightarrow> t)
                  in if py_len t > 255 then py_take 255 t else t))])"
  by (simp add: progress_request_def Let_def)

lemma progress_request_seq_options:
  "progress_request c (Seq n) m = progress_request c (Options (Some n) None) m"
  by (simp add: progress_request_def Let_def split: option.splits)

text \<open>
  Claim C6 does not hold: a bare integer sets \<open>seq\<close>, so the method returns through
  the branch for a present \<open>seq\<close> with the body \<^verbatim>\<open>{"message": ...}\<close>, and the
  assignment of the \<^verbatim>\<open>progress\<close> key after it is never reached. For \<^verbatim>\<open>progress(5)\<close>
  the body handed to the pipeline has the one key \<^verbatim>\<open>message\<close>, and a transport that
  echoes the request body shows the text on the wire.
\<close>

theorem progress_bare_int_sends_no_echo:
  \<open>(progress_request default_client (Seq 5) None :: rat error + _) =
     Inr (''progress'', ''/ping/abc123de/progress/5'', [(''message'', JStr [])]) \<and>
   progress default_client (stub_env echo_transport) (Seq 5) None =
     Some (Inr [(''ok'', JBool True), (''action'', JStr ''progress''),
                (''jobKey'', JStr ''abc123de''), (''timestamp'', JStr []),
                (''processingTimeMs'', JFloat 0), (''nextExpected'', JNull),
                (''raw'', JObj [(''message'', JStr [])])],
           1, [])\<close>
proof -
  let ?r = \<open>\<lparr>status = 200, body = ''{"message":""}'', headers = []\<rparr>\<close>
  have s: "str_int 5 = ''5''" by (simp add: str_int_def dec_digits.simps)
  have r: "(progress_request default_client (Seq 5) None :: rat error + _) =
     Inr (''progress'', ''/ping/abc123de/progress/5'', [(''message'', JStr [])])"
    by (simp add: progress_request_seq s py_len_def) (simp add: default_client_def)
  have e: \<open>http_client (stub_env echo_transport) 0
             \<lparr>req_method = m, req_url = u, req_headers = h, req_body = Some ''{"message":""}'',
              req_timeout_ms = t\<rparr> = Returns ?r\<close> for m u h t
    by (simp add: stub_env_def echo_transport_def)
  have dc: "safe_json (stub_env echo_transport) (body ?r) = Inr [(''message'', JStr [])]"
    by (simp add: stub_decode)
  have st: "200 \<le> status ?r" "status ?r < 300" by simp_all
  have n: "normalize_success default_client (stub_env echo_transport) ''progress''
             [(''message'', JStr [])] =
           Inr [(''ok'', JBool True), (''action'', JStr ''progress''),
                (''jobKey'', JStr ''abc123de''), (''timestamp'', JStr []),
                (''processingTimeMs'', JFloat 0), (''nextExpected'', JNull),
                (''raw'', JObj [(''message'', JStr [])])]"
    by (simp add: normalize_success_def stub_env_def dict_get_def default_client_def)
  have d: \<open>json_dumps (stub_env echo_transport) [(''message'', JStr [])] = Some ''{"message":""}''\<close>
    by (simp add: stub_env_def stub_dumps_def)
  show ?thesis
    unfolding progress_def r
    by (simp add: request_def d loop_returns_success [OF e dc st] n)
qed

end
